theory Spec2Isabelle
  imports Main "HOL-Library.Word"
begin

unbundle bit_operations_syntax

section \<open>The LLAMA streamer of daq2lh5\<close>

text \<open>
  A shallow embedding of \<^verbatim>\<open>src/daq2lh5/llama/llama_streamer.py\<close>, class
  \<^verbatim>\<open>LLAMAStreamer\<close>. A method that mutates \<^verbatim>\<open>self\<close> and may raise becomes a
  function from the streamer to a pair: what the call gives back (\<open>Inl\<close> the exception,
  \<open>Inr\<close> the returned value) and the streamer as the call leaves it. The second
  component is there on the exception path too, because the assignments made before a
  \<^verbatim>\<open>raise\<close> stay in the object.
\<close>

subsection \<open>Exceptions\<close>

text \<open>
  The three \<^verbatim>\<open>RuntimeError\<close>s of the file are told apart by their message; the fourth
  carries the two numbers of its f-string. \<open>KeyError\<close> is what the dictionary lookup
  \<^verbatim>\<open>get_channel_configs()[fch_id]\<close> raises for an absent key. \<open>OtherError\<close> stands
  for whatever the collaborators that are not part of this file raise.
\<close>

datatype runtime_error =
    Open_While_Open
  | Close_Unopened
  | No_Stream_Open
  | Short_Read nat nat

datatype error =
    RuntimeError runtime_error
  | KeyError nat
  | IndexError
  | OtherError string

subsection \<open>The input file\<close>

text \<open>
  \<^verbatim>\<open>self.in_stream\<close> is a binary file object. Of it the code uses \<^verbatim>\<open>tell()\<close>,
  \<^verbatim>\<open>read(n)\<close> with \<open>n \<ge> 0\<close>, \<^verbatim>\<open>seek(position)\<close> and \<^verbatim>\<open>close()\<close>. A regular file is
  its bytes and the current offset; \<^verbatim>\<open>read(n)\<close> gives the next \<open>n\<close> bytes, or all that
  are left when fewer are, and advances the offset by what it gave.
\<close>

type_synonym byte = "8 word"

record stream =
  content :: "byte list"
  pos :: nat

definition stream_tell :: "stream \<Rightarrow> nat" where
  "stream_tell s = pos s"

definition stream_read :: "nat \<Rightarrow> stream \<Rightarrow> byte list \<times> stream" where
  "stream_read n s =
     (let data = take n (drop (pos s) (content s))
      in (data, s\<lparr>pos := pos s + length data\<rparr>))"

definition stream_seek :: "nat \<Rightarrow> stream \<Rightarrow> stream" where
  "stream_seek p s = s\<lparr>pos := p\<rparr>"

text \<open>The bytes between the offset and the end of the file.\<close>

definition remaining :: "stream \<Rightarrow> byte list" where
  "remaining s = drop (pos s) (content s)"

subsection \<open>The channel configurations\<close>

text \<open>
  \<^verbatim>\<open>self.header_decoder.get_channel_configs()\<close> is a dictionary from channel id to a
  dictionary of settings, of which this file reads the entry \<^verbatim>\<open>"event_length"\<close>, the
  length of the channel's events in 32-bit words. The header decoder that fills it is
  not part of this file; the table is a field of the streamer here, and the length is a
  natural number (the specification calls it an unsigned 32-bit count; Python multiplies
  it by 4 without wrap-around).
\<close>

record channel_config =
  event_length :: nat

type_synonym channel_configs = "nat \<rightharpoonup> channel_config"

subsection \<open>The streamer object\<close>

text \<open>
  The attributes of \<^verbatim>\<open>LLAMAStreamer\<close> that the methods below read or write.
  \<^verbatim>\<open>in_stream\<close> is \<open>None\<close> while no file is open. \<^verbatim>\<open>any_full\<close> is inherited from
  \<^verbatim>\<open>DataStreamer\<close>. \<^verbatim>\<open>event_rbkd\<close> is the keyed dictionary of output buffers of the
  event decoder (or Python's \<^verbatim>\<open>None\<close>); its type is left open, since only the event
  decoder looks inside.
\<close>

record 'rb streamer =
  in_stream :: "stream option"
  n_bytes_read :: nat
  packet_id :: nat
  any_full :: bool
  event_rbkd :: 'rb
  configs :: channel_configs

subsection \<open>Reading the first word of an event\<close>

text \<open>
  \<^verbatim>\<open>np.fromstring(data1, dtype=np.uint32)\<close> reads the bytes four at a time as unsigned
  32-bit numbers in the byte order of the host, little-endian on the machines the
  acquisition runs on.
\<close>

definition uint32_le :: "byte \<Rightarrow> byte \<Rightarrow> byte \<Rightarrow> byte \<Rightarrow> 32 word" where
  "uint32_le b0 b1 b2 b3 =
     word_of_nat (unat b0 + 256 * unat b1 + 65536 * unat b2 + 16777216 * unat b3)"

fun fromstring_uint32 :: "byte list \<Rightarrow> 32 word list" where
  "fromstring_uint32 (b0 # b1 # b2 # b3 # rest) = uint32_le b0 b1 b2 b3 # fromstring_uint32 rest"
| "fromstring_uint32 _ = []"

text \<open>Line 145: \<^verbatim>\<open>fch_id = (header_data_32[0] >> 4) & 0x00000fff\<close>.\<close>

definition fch_id_of :: "32 word \<Rightarrow> 32 word" where
  "fch_id_of header_word = (drop_bit 4 header_word) AND 0x00000fff"

subsection \<open>\<^verbatim>\<open>__read_bytes\<close>\<close>

text \<open>
  The result is \<open>None\<close> where the source returns \<^verbatim>\<open>(None, -1)\<close>, and the packet with
  its channel id otherwise. The lookup in the table is by the number the id stands for,
  as Python's dictionaries compare a NumPy integer with an \<^verbatim>\<open>int\<close> key.
\<close>

definition read_bytes ::
  "'rb streamer \<Rightarrow> (error + (byte list \<times> 32 word) option) \<times> 'rb streamer" where
  "read_bytes st =
     (case in_stream st of
        None \<Rightarrow> (Inl (RuntimeError No_Stream_Open), st)
      | Some s0 \<Rightarrow>
          let position = stream_tell s0;
              (data1, s1) = stream_read 4 s0
          in if length data1 < 4 then (Inr None, st\<lparr>in_stream := Some s1\<rparr>)
             else
               let s2 = stream_seek position s1
               in (case fromstring_uint32 data1 of
                     [] \<Rightarrow> (Inl IndexError, st\<lparr>in_stream := Some s2\<rparr>)
                   | header_word # _ \<Rightarrow>
                       let fch_id = fch_id_of header_word
                       in (case configs st (unat fch_id) of
                             None \<Rightarrow> (Inl (KeyError (unat fch_id)), st\<lparr>in_stream := Some s2\<rparr>)
                           | Some cfg \<Rightarrow>
                               let event_length_32 = event_length cfg;
                                   event_length_8 = event_length_32 * 4;
                                   (packet, s3) = stream_read event_length_8 s2
                               in if length packet < event_length_8
                                  then (Inl (RuntimeError (Short_Read event_length_8 (length packet))),
                                        st\<lparr>in_stream := Some s3\<rparr>)
                                  else (Inr (Some (packet, fch_id)), st\<lparr>in_stream := Some s3\<rparr>))))"

subsection \<open>\<^verbatim>\<open>read_packet\<close>\<close>

text \<open>
  \<^verbatim>\<open>self.event_decoder.decode_packet(packet, self.event_rbkd, self.packet_id, fch_id)\<close>
  belongs to \<^verbatim>\<open>LLAMAEventDecoder\<close>, which is not part of this file: it is the parameter
  \<open>decode_packet\<close>. It fills the buffers it is handed and tells whether one of them is
  full, or raises. The line printed to the console is not part of the model.
\<close>

type_synonym 'rb event_decoder =
  "byte list \<Rightarrow> 'rb \<Rightarrow> nat \<Rightarrow> 32 word \<Rightarrow> (error + bool) \<times> 'rb"

definition read_packet ::
  "'rb event_decoder \<Rightarrow> 'rb streamer \<Rightarrow> (error + bool) \<times> 'rb streamer" where
  "read_packet decode_packet st =
     (case read_bytes st of
        (Inl e, st1) \<Rightarrow> (Inl e, st1)
      | (Inr None, st1) \<Rightarrow> (Inr False, st1)
      | (Inr (Some (packet, fch_id)), st1) \<Rightarrow>
          let st2 = st1\<lparr>packet_id := packet_id st1 + 1\<rparr>;
              st3 = st2\<lparr>n_bytes_read := n_bytes_read st2 + length packet\<rparr>
          in (case decode_packet packet (event_rbkd st3) (packet_id st3) fch_id of
                (Inl e, rb) \<Rightarrow> (Inl e, st3\<lparr>event_rbkd := rb\<rparr>)
              | (Inr full, rb) \<Rightarrow>
                  (Inr True, st3\<lparr>event_rbkd := rb, any_full := (any_full st3 \<or> full)\<rparr>)))"

subsection \<open>\<^verbatim>\<open>close_stream\<close>\<close>

definition close_stream :: "'rb streamer \<Rightarrow> (error + unit) \<times> 'rb streamer" where
  "close_stream st =
     (case in_stream st of
        None \<Rightarrow> (Inl (RuntimeError Close_Unopened), st)
      | Some s \<Rightarrow> (Inr (), st\<lparr>in_stream := None\<rparr>))"

subsection \<open>\<^verbatim>\<open>open_stream\<close>\<close>

text \<open>
  Three collaborators of \<^verbatim>\<open>open_stream\<close> are not part of this file and are parameters:
  \<^item> \<open>open_file\<close>, Python's \<^verbatim>\<open>open(name, "rb")\<close>: the bytes of the file, or an exception;
  \<^item> \<open>decode_header\<close>, \<^verbatim>\<open>LLAMAHeaderDecoder.decode_header\<close> followed by
    \<^verbatim>\<open>get_channel_configs()\<close>: from the table the header decoder holds and the stream it
    gives the header with the number of bytes it says it read (or an exception), the
    table and the stream as it leaves them;
  \<^item> \<open>init_buffers\<close>, lines 69 to 96, which are calls into \<^verbatim>\<open>DataStreamer\<close>,
    \<^verbatim>\<open>RawBufferLibrary\<close> and \<^verbatim>\<open>RawBuffer\<close>: from the header and the caller's buffer
    library, the value of \<^verbatim>\<open>self.event_rbkd\<close> and the list that is returned.
\<close>

type_synonym 'hdr header_decoder =
  "channel_configs \<Rightarrow> stream \<Rightarrow> (error + 'hdr \<times> nat) \<times> channel_configs \<times> stream"

definition open_stream ::
  "(string \<Rightarrow> error + byte list) \<Rightarrow> 'hdr header_decoder \<Rightarrow>
   ('hdr \<Rightarrow> 'lib option \<Rightarrow> error + 'rb \<times> 'out) \<Rightarrow>
   string \<Rightarrow> 'lib option \<Rightarrow> 'rb streamer \<Rightarrow> (error + 'out) \<times> 'rb streamer" where
  "open_stream open_file decode_header init_buffers llama_filename rb_lib st =
     (case in_stream st of
        Some _ \<Rightarrow> (Inl (RuntimeError Open_While_Open), st)
      | None \<Rightarrow>
          (case open_file llama_filename of
             Inl e \<Rightarrow> (Inl e, st)
           | Inr bytes \<Rightarrow>
               let st1 = st\<lparr>in_stream := Some \<lparr>content = bytes, pos = 0\<rparr>\<rparr>;
                   st2 = st1\<lparr>n_bytes_read := 0\<rparr>;
                   st3 = st2\<lparr>packet_id := 0\<rparr>
               in (case decode_header (configs st3) \<lparr>content = bytes, pos = 0\<rparr> of
                     (Inl e, cfgs, s) \<Rightarrow> (Inl e, st3\<lparr>in_stream := Some s, configs := cfgs\<rparr>)
                   | (Inr (header, n_bytes_hdr), cfgs, s) \<Rightarrow>
                       let st4 = st3\<lparr>in_stream := Some s, configs := cfgs\<rparr>;
                           st5 = st4\<lparr>n_bytes_read := n_bytes_read st4 + n_bytes_hdr\<rparr>
                       in (case init_buffers header rb_lib of
                             Inl e \<Rightarrow> (Inl e, st5)
                           | Inr (rbkd, out) \<Rightarrow> (Inr out, st5\<lparr>event_rbkd := rbkd\<rparr>)))))"

subsection \<open>Driving the streamer, and well-formed packets\<close>

text \<open>
  The loop that calls \<^verbatim>\<open>read_packet\<close> lives in \<^verbatim>\<open>DataStreamer\<close>. To speak of a run
  of calls, \<open>read_packets decode_packet k\<close> makes \<open>k\<close> calls in a row and gives the
  streamer after the last one, provided every call returned \<^verbatim>\<open>True\<close>.
\<close>

fun read_packets :: "'rb event_decoder \<Rightarrow> nat \<Rightarrow> 'rb streamer \<Rightarrow> 'rb streamer option" where
  "read_packets decode_packet 0 st = Some st"
| "read_packets decode_packet (Suc k) st =
     (case read_packet decode_packet st of
        (Inr True, st') \<Rightarrow> read_packets decode_packet k st'
      | _ \<Rightarrow> None)"

text \<open>
  A packet is well formed for a table when the channel in its first word has an entry
  and the packet is as long as the entry says.
\<close>

definition valid_packet :: "channel_configs \<Rightarrow> byte list \<Rightarrow> bool" where
  "valid_packet cfgs p =
     (case fromstring_uint32 (take 4 p) of
        [] \<Rightarrow> False
      | header_word # _ \<Rightarrow>
          (case cfgs (unat (fch_id_of header_word)) of
             None \<Rightarrow> False
           | Some cfg \<Rightarrow> length p = event_length cfg * 4))"

subsection \<open>A small run\<close>

text \<open>
  One channel, number 5, with events of two words; a file holding one such event, whose
  first word is \<open>0x00000050\<close>; an event decoder that appends the packet to a list and
  reports a full buffer from the third packet on.
\<close>

definition ex_configs :: channel_configs where
  "ex_configs = [5 \<mapsto> \<lparr>event_length = 2\<rparr>]"

definition ex_bytes :: "byte list" where
  "ex_bytes = [0x50, 0, 0, 0, 1, 2, 3, 4]"

definition ex_decoder :: "(byte list list) event_decoder" where
  "ex_decoder packet rb pid fch = (Inr (2 \<le> length rb), rb @ [packet])"

definition ex_streamer :: "byte list \<Rightarrow> nat \<Rightarrow> (byte list list) streamer" where
  "ex_streamer bs p =
     \<lparr>in_stream = Some \<lparr>content = bs, pos = p\<rparr>, n_bytes_read = p, packet_id = 0,
      any_full = False, event_rbkd = [], configs = ex_configs\<rparr>"

definition ex_closed :: "(byte list list) streamer" where
  "ex_closed =
     \<lparr>in_stream = None, n_bytes_read = 0, packet_id = 0,
      any_full = False, event_rbkd = [], configs = Map.empty\<rparr>"

lemmas ex_defs = ex_configs_def ex_bytes_def ex_decoder_def ex_streamer_def ex_closed_def

lemmas code_defs = read_packet_def read_bytes_def stream_read_def stream_tell_def stream_seek_def
  uint32_le_def fch_id_of_def remaining_def Let_def

section \<open>Properties\<close>

subsection \<open>The file object\<close>

lemma stream_read_eq:
  "stream_read n s = (take n (remaining s), s\<lparr>pos := pos s + min n (length (remaining s))\<rparr>)"
  by (simp add: stream_read_def remaining_def Let_def min_def)

lemma peek_rewind: "stream_seek (stream_tell s) (snd (stream_read n s)) = s"
  by (simp add: stream_seek_def stream_tell_def stream_read_def Let_def)

lemma fromstring_uint32_nonempty: "fromstring_uint32 bs = w # ws \<Longrightarrow> 4 \<le> length bs"
  by (cases bs rule: fromstring_uint32.cases) auto

lemma fromstring_uint32_take4: "4 \<le> length bs \<Longrightarrow> \<exists>w. fromstring_uint32 (take 4 bs) = [w]"
  by (cases bs rule: fromstring_uint32.cases) auto

lemma in_stream_same: "in_stream st = Some s \<Longrightarrow> st\<lparr>in_stream := Some s\<rparr> = st"
  by (cases st) simp

lemma read_bytes_closed:
  "in_stream st = None \<Longrightarrow> read_bytes st = (Inl (RuntimeError No_Stream_Open), st)"
  by (simp add: read_bytes_def)

lemma read_bytes_eof:
  assumes "in_stream st = Some s" and "length (remaining s) < 4"
  shows "read_bytes st = (Inr None, st\<lparr>in_stream := Some (s\<lparr>pos := pos s + length (remaining s)\<rparr>)\<rparr>)"
  using assms by (simp add: read_bytes_def stream_read_eq stream_tell_def min_def)

lemma read_bytes_unknown:
  assumes "in_stream st = Some s" and "fromstring_uint32 (take 4 (remaining s)) = w # ws"
    and "configs st (unat (fch_id_of w)) = None"
  shows "read_bytes st = (Inl (KeyError (unat (fch_id_of w))), st)"
proof -
  have "4 \<le> length (remaining s)"
    using fromstring_uint32_nonempty [OF assms(2)] by simp
  then show ?thesis
    using assms
    by (simp add: read_bytes_def stream_read_eq stream_tell_def stream_seek_def in_stream_same)
qed

lemma read_bytes_short:
  assumes "in_stream st = Some s" and "fromstring_uint32 (take 4 (remaining s)) = w # ws"
    and "configs st (unat (fch_id_of w)) = Some cfg"
    and "length (remaining s) < event_length cfg * 4"
  shows "read_bytes st =
           (Inl (RuntimeError (Short_Read (event_length cfg * 4) (length (remaining s)))),
            st\<lparr>in_stream := Some (s\<lparr>pos := length (content s)\<rparr>)\<rparr>)"
proof -
  have four: "4 \<le> length (remaining s)"
    using fromstring_uint32_nonempty [OF assms(2)] by simp
  then have "pos s + length (remaining s) = length (content s)"
    by (simp add: remaining_def)
  with four show ?thesis
    using assms
    by (simp add: read_bytes_def stream_read_eq stream_tell_def stream_seek_def min_def)
qed

lemma read_bytes_ok:
  assumes "in_stream st = Some s" and "fromstring_uint32 (take 4 (remaining s)) = w # ws"
    and "configs st (unat (fch_id_of w)) = Some cfg"
    and "event_length cfg * 4 \<le> length (remaining s)"
  shows "read_bytes st =
           (Inr (Some (take (event_length cfg * 4) (remaining s), fch_id_of w)),
            st\<lparr>in_stream := Some (s\<lparr>pos := pos s + event_length cfg * 4\<rparr>)\<rparr>)"
proof -
  have four: "4 \<le> length (remaining s)"
    using fromstring_uint32_nonempty [OF assms(2)] by simp
  then show ?thesis
    using assms
    by (simp add: read_bytes_def stream_read_eq stream_tell_def stream_seek_def min_def Let_def)
qed

subsection \<open>The five ways through \<^verbatim>\<open>__read_bytes\<close>\<close>

text \<open>
  No stream; fewer than four bytes left; a channel without an entry; fewer bytes left
  than the entry asks for; a whole packet.
\<close>

lemma read_bytes_cases:
  obtains
    (closed) "in_stream st = None"
  | (eof) s where "in_stream st = Some s" "length (remaining s) < 4"
  | (unknown) s w where "in_stream st = Some s" "fromstring_uint32 (take 4 (remaining s)) = [w]"
      "configs st (unat (fch_id_of w)) = None"
  | (short) s w cfg where "in_stream st = Some s" "fromstring_uint32 (take 4 (remaining s)) = [w]"
      "configs st (unat (fch_id_of w)) = Some cfg" "length (remaining s) < event_length cfg * 4"
  | (ok) s w cfg where "in_stream st = Some s" "fromstring_uint32 (take 4 (remaining s)) = [w]"
      "configs st (unat (fch_id_of w)) = Some cfg" "event_length cfg * 4 \<le> length (remaining s)"
proof (cases "in_stream st")
  case None
  then show ?thesis by (rule closed)
next
  case (Some s)
  show ?thesis
  proof (cases "length (remaining s) < 4")
    case True
    with Some show ?thesis by (rule eof)
  next
    case False
    then obtain w where w: "fromstring_uint32 (take 4 (remaining s)) = [w]"
      using fromstring_uint32_take4 [of "remaining s"] by auto
    show ?thesis
    proof (cases "configs st (unat (fch_id_of w))")
      case None
      with Some w show ?thesis by (rule unknown)
    next
      case (Some cfg)
      show ?thesis
      proof (cases "length (remaining s) < event_length cfg * 4")
        case True
        with \<open>in_stream st = Some s\<close> w Some show ?thesis by (rule short)
      next
        case False
        then have "event_length cfg * 4 \<le> length (remaining s)" by simp
        with \<open>in_stream st = Some s\<close> w Some show ?thesis by (rule ok)
      qed
    qed
  qed
qed

text \<open>\<^verbatim>\<open>__read_bytes\<close> writes no attribute other than \<^verbatim>\<open>in_stream\<close>.\<close>

lemma read_bytes_frame:
  "\<exists>i. snd (read_bytes st) = st\<lparr>in_stream := i\<rparr>"
proof (cases st rule: read_bytes_cases)
  case closed
  then have "snd (read_bytes st) = st\<lparr>in_stream := None\<rparr>"
    by (cases st) (simp add: read_bytes_closed)
  then show ?thesis ..
next
  case (eof s)
  then have "snd (read_bytes st) = st\<lparr>in_stream := Some (s\<lparr>pos := pos s + length (remaining s)\<rparr>)\<rparr>"
    by (simp add: read_bytes_eof)
  then show ?thesis ..
next
  case (unknown s w)
  then have "snd (read_bytes st) = st\<lparr>in_stream := Some s\<rparr>"
    by (simp add: read_bytes_unknown in_stream_same)
  then show ?thesis ..
next
  case (short s w cfg)
  then have "snd (read_bytes st) = st\<lparr>in_stream := Some (s\<lparr>pos := length (content s)\<rparr>)\<rparr>"
    by (simp add: read_bytes_short)
  then show ?thesis ..
next
  case (ok s w cfg)
  then have "snd (read_bytes st) = st\<lparr>in_stream := Some (s\<lparr>pos := pos s + event_length cfg * 4\<rparr>)\<rparr>"
    by (simp add: read_bytes_ok)
  then show ?thesis ..
qed

text \<open>\<^verbatim>\<open>read_packet\<close> returns \<^verbatim>\<open>False\<close> on one path only.\<close>

lemma read_packet_False:
  assumes "read_packet dec st = (Inr False, st')"
  shows "\<exists>s. in_stream st = Some s \<and> length (remaining s) < 4"
proof (cases st rule: read_bytes_cases)
  case closed
  with assms show ?thesis by (simp add: read_packet_def read_bytes_closed)
next
  case (eof s)
  then show ?thesis by blast
next
  case (unknown s w)
  with assms show ?thesis by (simp add: read_packet_def read_bytes_unknown)
next
  case (short s w cfg)
  with assms show ?thesis by (simp add: read_packet_def read_bytes_short)
next
  case (ok s w cfg)
  with assms show ?thesis
    by (simp add: read_packet_def read_bytes_ok Let_def split: prod.splits sum.splits)
qed

section \<open>The claims\<close>

subsection \<open>C1: what \<^verbatim>\<open>read_packet\<close> returns for a processed packet\<close>

text \<open>
  C1 as written says that the value returned for a processed packet is the accumulated
  buffer-full flag. The source returns \<^verbatim>\<open>True\<close> on that path whatever the decoder
  reported (its docstring: ``returns True while there is still data to read''), and
  keeps the accumulated flag in \<^verbatim>\<open>self.any_full\<close>. In the small run the decoder
  reports ``not full'', no flag was pending, and the call returns \<^verbatim>\<open>True\<close>.
\<close>

theorem return_value_counterexample:
  "fst (ex_decoder ex_bytes (event_rbkd (ex_streamer ex_bytes 0)) 1 5) = Inr False \<and>
   any_full (ex_streamer ex_bytes 0) = False \<and>
   fst (read_packet ex_decoder (ex_streamer ex_bytes 0)) = Inr True \<and>
   any_full (snd (read_packet ex_decoder (ex_streamer ex_bytes 0))) = False"
  by (simp add: ex_defs code_defs)

text \<open>
  C1, amended: when \<^verbatim>\<open>__read_bytes\<close> delivers a packet and the decoder does not
  raise, \<^verbatim>\<open>read_packet\<close> returns \<^verbatim>\<open>True\<close>; the decoder's report is or-ed into
  \<^verbatim>\<open>any_full\<close>, and the buffers are as the decoder left them.
\<close>

theorem read_packet_returns_True:
  assumes "read_bytes st = (Inr (Some (packet, fch_id)), st1)"
    and "decode_packet packet (event_rbkd st) (packet_id st + 1) fch_id = (Inr full, rb)"
  shows "fst (read_packet decode_packet st) = Inr True \<and>
         any_full (snd (read_packet decode_packet st)) = (any_full st \<or> full) \<and>
         event_rbkd (snd (read_packet decode_packet st)) = rb"
proof -
  obtain i where "st1 = st\<lparr>in_stream := i\<rparr>"
    using read_bytes_frame [of st] assms(1) by auto
  then show ?thesis
    using assms by (simp add: read_packet_def Let_def)
qed

theorem read_packet_returns_True_witness:
  "read_bytes (ex_streamer ex_bytes 0) =
     (Inr (Some (ex_bytes, 5)), (ex_streamer ex_bytes 0)\<lparr>in_stream := Some \<lparr>content = ex_bytes, pos = 8\<rparr>\<rparr>) \<and>
   ex_decoder ex_bytes (event_rbkd (ex_streamer ex_bytes 0)) (packet_id (ex_streamer ex_bytes 0) + 1) 5
     = (Inr False, [ex_bytes]) \<and>
   fst (read_packet ex_decoder (ex_streamer ex_bytes 0)) = Inr True \<and>
   any_full (snd (read_packet ex_decoder (ex_streamer ex_bytes 0))) = False \<and>
   event_rbkd (snd (read_packet ex_decoder (ex_streamer ex_bytes 0))) = [ex_bytes]"
proof -
  have rb: "read_bytes (ex_streamer ex_bytes 0) =
     (Inr (Some (ex_bytes, 5)), (ex_streamer ex_bytes 0)\<lparr>in_stream := Some \<lparr>content = ex_bytes, pos = 8\<rparr>\<rparr>)"
    by (simp add: ex_defs code_defs)
  have dec: "ex_decoder ex_bytes (event_rbkd (ex_streamer ex_bytes 0)) (packet_id (ex_streamer ex_bytes 0) + 1) 5
     = (Inr False, [ex_bytes])"
    by (simp add: ex_decoder_def ex_streamer_def)
  show ?thesis
    using read_packet_returns_True [where decode_packet = ex_decoder, OF rb dec] rb dec by (simp add: ex_streamer_def)
qed

subsection \<open>C2: a stream that ends inside the first word\<close>

text \<open>
  C2 as written says that one to three bytes at a packet boundary make
  \<^verbatim>\<open>read_packet\<close> fail. The guard \<^verbatim>\<open>if len(data1) < 4: return None, -1\<close> treats every
  short first read alike: with two bytes left the call returns \<^verbatim>\<open>False\<close> and raises
  nothing.
\<close>

theorem partial_header_word_counterexample:
  "length (remaining \<lparr>content = ex_bytes, pos = 6\<rparr>) = 2 \<and>
   in_stream (ex_streamer ex_bytes 6) = Some \<lparr>content = ex_bytes, pos = 6\<rparr> \<and>
   fst (read_packet ex_decoder (ex_streamer ex_bytes 6)) = Inr False"
  by (simp add: ex_defs code_defs)

text \<open>
  C2, amended: with one to three bytes left at a packet boundary, \<^verbatim>\<open>read_packet\<close>
  raises nothing and returns \<^verbatim>\<open>False\<close>, the signal it gives at the end of the
  stream; the counters and the buffers keep their values, and the file offset is at the
  end of the file.
\<close>

theorem partial_header_word_is_end_of_stream:
  assumes "in_stream st = Some s" and "0 < length (remaining s)" and "length (remaining s) < 4"
  shows "read_packet decode_packet st =
           (Inr False, st\<lparr>in_stream := Some (s\<lparr>pos := length (content s)\<rparr>)\<rparr>)"
proof -
  have "pos s + length (remaining s) = length (content s)"
    using assms(2) by (simp add: remaining_def)
  then show ?thesis
    using assms by (simp add: read_packet_def read_bytes_eof)
qed

theorem partial_header_word_is_end_of_stream_witness:
  "in_stream (ex_streamer ex_bytes 6) = Some \<lparr>content = ex_bytes, pos = 6\<rparr> \<and>
   0 < length (remaining \<lparr>content = ex_bytes, pos = 6\<rparr>) \<and>
   length (remaining \<lparr>content = ex_bytes, pos = 6\<rparr>) < 4 \<and>
   read_packet ex_decoder (ex_streamer ex_bytes 6) =
     (Inr False, (ex_streamer ex_bytes 6)\<lparr>in_stream := Some \<lparr>content = ex_bytes, pos = 8\<rparr>\<rparr>)"
  using partial_header_word_is_end_of_stream
    [of "ex_streamer ex_bytes 6" "\<lparr>content = ex_bytes, pos = 6\<rparr>" ex_decoder]
  by (simp add: ex_streamer_def ex_bytes_def remaining_def)

subsection \<open>C3: the end of the stream\<close>

text \<open>
  C3: with a stream open and no byte left, \<^verbatim>\<open>read_packet\<close> raises nothing, returns
  \<^verbatim>\<open>False\<close> and leaves the whole streamer as it was: no record is deposited,
  \<^verbatim>\<open>packet_id\<close> and \<^verbatim>\<open>n_bytes_read\<close> keep their values. And \<^verbatim>\<open>False\<close> is returned by
  no other path: whenever a call returns it, a stream was open with fewer than four
  bytes left, which is what the specification calls a clean end of stream.
\<close>

theorem clean_end_of_stream:
  "(in_stream st = Some s \<and> remaining s = [] \<longrightarrow> read_packet decode_packet st = (Inr False, st)) \<and>
   (read_packet decode_packet st = (Inr False, st') \<longrightarrow>
      (\<exists>s. in_stream st = Some s \<and> length (remaining s) < 4))"
proof -
  have "read_packet decode_packet st = (Inr False, st)" if "in_stream st = Some s" "remaining s = []"
    using that by (simp add: read_packet_def read_bytes_eof in_stream_same)
  then show ?thesis
    using read_packet_False by blast
qed

theorem clean_end_of_stream_witness:
  "in_stream (ex_streamer ex_bytes 8) = Some \<lparr>content = ex_bytes, pos = 8\<rparr> \<and>
   remaining \<lparr>content = ex_bytes, pos = 8\<rparr> = [] \<and>
   read_packet ex_decoder (ex_streamer ex_bytes 8) = (Inr False, ex_streamer ex_bytes 8) \<and>
   length (remaining \<lparr>content = ex_bytes, pos = 8\<rparr>) < 4"
  using clean_end_of_stream [of "ex_streamer ex_bytes 8" "\<lparr>content = ex_bytes, pos = 8\<rparr>" ex_decoder
      "ex_streamer ex_bytes 8"]
  by (simp add: ex_streamer_def ex_bytes_def remaining_def)

subsection \<open>C9: opening twice, closing what is not open\<close>

text \<open>
  C9: \<^verbatim>\<open>open_stream\<close> on a streamer whose \<^verbatim>\<open>in_stream\<close> is not \<^verbatim>\<open>None\<close> raises
  \<^verbatim>\<open>RuntimeError\<close> and changes nothing in the streamer (the open stream, the counters
  and the channel table included); \<^verbatim>\<open>close_stream\<close> on a streamer whose
  \<^verbatim>\<open>in_stream\<close> is \<^verbatim>\<open>None\<close> raises \<^verbatim>\<open>RuntimeError\<close>.
\<close>

theorem open_close_guards:
  "(in_stream st \<noteq> None \<longrightarrow>
      open_stream open_file decode_header init_buffers llama_filename rb_lib st
        = (Inl (RuntimeError Open_While_Open), st)) \<and>
   (in_stream st = None \<longrightarrow> close_stream st = (Inl (RuntimeError Close_Unopened), st))"
  by (auto simp: open_stream_def close_stream_def)

theorem open_close_guards_witness:
  "in_stream (ex_streamer ex_bytes 0) \<noteq> None \<and>
   open_stream (\<lambda>name. Inr ex_bytes) (\<lambda>c s. (Inr ((), 0), c, s)) (\<lambda>h l. Inr ([], ())) ''run.bin'' None
       (ex_streamer ex_bytes 0)
     = (Inl (RuntimeError Open_While_Open), ex_streamer ex_bytes 0) \<and>
   in_stream ex_closed = None \<and>
   close_stream ex_closed = (Inl (RuntimeError Close_Unopened), ex_closed)"
  using open_close_guards [of "ex_streamer ex_bytes 0" "\<lambda>name. Inr ex_bytes"
      "\<lambda>c s. (Inr ((), 0), c, s)" "\<lambda>h l. Inr ([], ())" "''run.bin''" None]
    open_close_guards [of ex_closed]
  by (simp add: ex_streamer_def ex_closed_def)

end
